theory Spec2Isabelle
  imports Main "HOL-Library.AList"
begin

section \<open>Python values kept in the pickle file\<close>

text \<open>
  The store of \<^verbatim>\<open>script.py\<close> is one pickled Python object in \<^verbatim>\<open>pickle.db\<close>. The
  program writes dictionaries with string keys whose values are \<^verbatim>\<open>datetime\<close> objects
  or nested dictionaries; the file itself may hold any object. A \<^verbatim>\<open>datetime\<close> is
  modelled by its number of microseconds since the epoch, a \<^verbatim>\<open>timedelta\<close> by its
  number of microseconds (a Python \<^verbatim>\<open>int\<close> on both sides, unbounded here). A
  dictionary is an association list in insertion order.
\<close>

datatype pyval =
    PNone
  | PInt int
  | PStr string
  | PTime int
  | PDict "(string \<times> pyval) list"

text \<open>Python truth value: \<^verbatim>\<open>None\<close>, \<^verbatim>\<open>0\<close>, \<^verbatim>\<open>''\<close> and \<^verbatim>\<open>{}\<close> are false, a
  \<^verbatim>\<open>datetime\<close> is always true.\<close>

fun truthy :: "pyval \<Rightarrow> bool" where
  "truthy PNone = False"
| "truthy (PInt i) = (i \<noteq> 0)"
| "truthy (PStr s) = (s \<noteq> [])"
| "truthy (PTime t) = True"
| "truthy (PDict d) = (d \<noteq> [])"

text \<open>\<^verbatim>\<open>a or b\<close>\<close>

definition py_or :: "pyval \<Rightarrow> pyval \<Rightarrow> pyval" where
  "py_or a b = (if truthy a then a else b)"

datatype error =
    AssertionError
  | AttributeError
  | TypeError
  | OSError
  | NotImplementedError string
  | ConnectionError
  | HTTPError int
  | OverflowError

text \<open>\<^verbatim>\<open>d.get(k, default)\<close>: only a dictionary has the method.\<close>

fun dict_get :: "pyval \<Rightarrow> string \<Rightarrow> pyval \<Rightarrow> error + pyval" where
  "dict_get (PDict d) k dflt = Inr (case map_of d k of None \<Rightarrow> dflt | Some v \<Rightarrow> v)"
| "dict_get _ k dflt = Inl AttributeError"

text \<open>\<^verbatim>\<open>d[k] = v\<close>: item assignment is a \<^verbatim>\<open>TypeError\<close> on \<^verbatim>\<open>None\<close>, numbers, strings
  and datetimes.\<close>

fun dict_setitem :: "pyval \<Rightarrow> string \<Rightarrow> pyval \<Rightarrow> error + pyval" where
  "dict_setitem (PDict d) k v = Inr (PDict (AList.update k v d))"
| "dict_setitem _ k v = Inl TypeError"

text \<open>\<^verbatim>\<open>d.setdefault(k, {})\<close>: the value found under \<open>k\<close> (whatever it is, also
  \<^verbatim>\<open>None\<close>), or a fresh empty dictionary stored under \<open>k\<close>.\<close>

fun dict_setdefault :: "pyval \<Rightarrow> string \<Rightarrow> error + pyval" where
  "dict_setdefault (PDict d) k = Inr (case map_of d k of None \<Rightarrow> PDict [] | Some v \<Rightarrow> v)"
| "dict_setdefault _ k = Inl AttributeError"

section \<open>The world the script runs in\<close>

text \<open>
  What \<^verbatim>\<open>open(pickle_file, 'rb')\<close> followed by \<^verbatim>\<open>pickle.load\<close> meets: no file, bytes
  that do not unpickle, or a pickled object.
\<close>

datatype pfile = Missing | Garbage | Pickled pyval

text \<open>What the script prints, one constructor for each \<^verbatim>\<open>print\<close> of the source.\<close>

datatype printed =
    Sending_Email "string list"
  | Debug_Mail string "string list" string "string option"
  | Sms_Not_Implemented
  | Traceback error
  | Change_Detected string string bool
  | Cleaning
  | Watching "string list"
  | Invalid_Path string
  | Long_Idle string
  | Cannot_Send
  | Usage_Error string

text \<open>One \<^verbatim>\<open>requests.post\<close> to Mailgun: the url's domain, the api key, and the form data.\<close>

record mail =
  m_domain :: string
  m_key :: string
  m_from :: string
  m_to :: string
  m_subject :: string
  m_text :: string
  m_html :: "string option"

record world =
  pickle_file :: pfile
  writable :: bool
  clock :: "nat \<Rightarrow> int"
  reads :: nat
  out :: "printed list"
  net :: "int option"
  posted :: "mail list"
  DEBUG :: bool
  MAILGUN_DOMAIN_NAME :: string
  MAILGUN_API_KEY :: string
  exists_path :: "string \<Rightarrow> bool"
  scheduled :: "string list"
  started :: bool
  stopped :: bool
  sleeps :: nat

text \<open>
  \<open>pickle_file\<close> is \<^verbatim>\<open>pickle.db\<close>; \<open>writable\<close> says whether \<^verbatim>\<open>open(pickle_file, 'wb')\<close>
  succeeds; \<open>clock\<close> is the sequence of values \<^verbatim>\<open>datetime.utcnow()\<close> returns and
  \<open>reads\<close> how many have been taken; \<open>net\<close> is the answer of the mail endpoint
  (\<open>None\<close>: no connection, \<open>Some s\<close>: HTTP status \<open>s\<close>); \<open>scheduled\<close>, \<open>started\<close> and
  \<open>stopped\<close> are the watchdog observer; \<open>sleeps\<close> counts \<^verbatim>\<open>time.sleep(1)\<close>.
\<close>

definition utcnow :: "world \<Rightarrow> int" where
  "utcnow w = clock w (reads w)"

definition tick :: "world \<Rightarrow> world" where
  "tick w = w\<lparr>reads := Suc (reads w)\<rparr>"

definition print :: "printed \<Rightarrow> world \<Rightarrow> world" where
  "print p w = w\<lparr>out := out w @ [p]\<rparr>"

section \<open>The persistent store\<close>

text \<open>The \<^verbatim>\<open>try\<close> block shared by \<^verbatim>\<open>set_persist\<close> and \<^verbatim>\<open>get_persist\<close>:
  \<^verbatim>\<open>pickle.load(f_in) or {}\<close>, and \<^verbatim>\<open>{}\<close> when opening or loading raises.\<close>

fun load_data :: "pfile \<Rightarrow> pyval" where
  "load_data Missing = PDict []"
| "load_data Garbage = PDict []"
| "load_data (Pickled v) = py_or v (PDict [])"

text \<open>\<^verbatim>\<open>with open(pickle_file, 'wb') as f_out: pickle.dump(data, f_out)\<close>\<close>

definition dump :: "pyval \<Rightarrow> world \<Rightarrow> (error + unit) \<times> world" where
  "dump data w = (if writable w then (Inr (), w\<lparr>pickle_file := Pickled data\<rparr>) else (Inl OSError, w))"

definition clean_persist :: "world \<Rightarrow> (error + unit) \<times> world" where
  "clean_persist w = dump (PDict []) w"

text \<open>\<^verbatim>\<open>if workspace:\<close> for a workspace that is \<^verbatim>\<open>None\<close> or a string.\<close>

fun ws_truthy :: "string option \<Rightarrow> bool" where
  "ws_truthy None = False"
| "ws_truthy (Some s) = (s \<noteq> [])"

text \<open>The dictionary after lines 37 to 40 of \<^verbatim>\<open>set_persist\<close>, or the exception they
  raise. \<^verbatim>\<open>setdefault\<close> returns the object stored in \<open>old_data\<close>, so assigning into
  it changes \<open>old_data\<close> under the key \<open>workspace\<close>.\<close>

definition put_workspace :: "pyval \<Rightarrow> string \<Rightarrow> pyval \<Rightarrow> string \<Rightarrow> error + pyval" where
  "put_workspace old_data name val ws =
     (case dict_setdefault old_data ws of
        Inl e \<Rightarrow> Inl e
      | Inr inner \<Rightarrow>
         (case dict_setitem inner name val of
            Inl e \<Rightarrow> Inl e
          | Inr inner' \<Rightarrow> dict_setitem old_data ws inner'))"

fun put :: "pyval \<Rightarrow> string \<Rightarrow> pyval \<Rightarrow> string option \<Rightarrow> error + pyval" where
  "put old_data name val None = dict_setitem old_data name val"
| "put old_data name val (Some ws) =
     (if ws \<noteq> [] then put_workspace old_data name val ws
      else dict_setitem old_data name val)"

definition set_persist :: "string \<Rightarrow> pyval \<Rightarrow> string option \<Rightarrow> world \<Rightarrow> (error + unit) \<times> world" where
  "set_persist name val workspace w =
     (case put (load_data (pickle_file w)) name val workspace of
        Inl e \<Rightarrow> (Inl e, w)
      | Inr new_data \<Rightarrow> dump new_data w)"

text \<open>Line 52: \<^verbatim>\<open>(data.get(workspace) or {}).get(name, default) if workspace else
  data.get(name, default)\<close>.\<close>

fun lookup :: "pyval \<Rightarrow> string \<Rightarrow> pyval \<Rightarrow> string option \<Rightarrow> error + pyval" where
  "lookup data name dflt None = dict_get data name dflt"
| "lookup data name dflt (Some ws) =
     (if ws \<noteq> [] then
        (case dict_get data ws PNone of
           Inl e \<Rightarrow> Inl e
         | Inr inner \<Rightarrow> dict_get (py_or inner (PDict [])) name dflt)
      else dict_get data name dflt)"

definition get_persist :: "string \<Rightarrow> pyval \<Rightarrow> string option \<Rightarrow> world \<Rightarrow> error + pyval" where
  "get_persist name dflt workspace w = lookup (load_data (pickle_file w)) name dflt workspace"

section \<open>Sequencing calls that may raise\<close>

definition bind :: "(error + 'a) \<times> world \<Rightarrow> ('a \<Rightarrow> world \<Rightarrow> (error + 'b) \<times> world) \<Rightarrow> (error + 'b) \<times> world" where
  "bind r f = (case r of (Inl e, w) \<Rightarrow> (Inl e, w) | (Inr a, w) \<Rightarrow> f a w)"

section \<open>Sending mail\<close>

text \<open>The \<open>to\<close> argument of \<^verbatim>\<open>send_mail\<close>: \<^verbatim>\<open>None\<close>, one string, or a list of strings.\<close>

datatype recipients = To_None | To_Str string | To_List "string list"

fun to_truthy :: "recipients \<Rightarrow> bool" where
  "to_truthy To_None = False"
| "to_truthy (To_Str s) = (s \<noteq> [])"
| "to_truthy (To_List l) = (l \<noteq> [])"

text \<open>\<^verbatim>\<open>if isinstance(to, str): to = [to]\<close>\<close>

fun to_list :: "recipients \<Rightarrow> string list" where
  "to_list To_None = []"
| "to_list (To_Str s) = [s]"
| "to_list (To_List l) = l"

definition MAILGUN_DEFAULT_FROM :: string where
  "MAILGUN_DEFAULT_FROM = ''alert@cinnamonhills.org''"

text \<open>\<^verbatim>\<open>','.join(to)\<close>\<close>

fun join_commas :: "string list \<Rightarrow> string" where
  "join_commas [] = []"
| "join_commas [s] = s"
| "join_commas (s # t # ts) = s @ '','' @ join_commas (t # ts)"

text \<open>\<^verbatim>\<open>from_email or MAILGUN_DEFAULT_FROM\<close> and \<^verbatim>\<open>text or html\<close>\<close>

fun from_or_default :: "string option \<Rightarrow> string" where
  "from_or_default None = MAILGUN_DEFAULT_FROM"
| "from_or_default (Some s) = (if s \<noteq> [] then s else MAILGUN_DEFAULT_FROM)"

definition text_or_html :: "string \<Rightarrow> string option \<Rightarrow> string option" where
  "text_or_html txt html = (if txt \<noteq> [] then Some txt else html)"

text \<open>\<^verbatim>\<open>requests.post\<close> followed by \<^verbatim>\<open>response.raise_for_status()\<close>, which raises for a
  status from 400 to 599.\<close>

definition post :: "mail \<Rightarrow> world \<Rightarrow> (error + unit) \<times> world" where
  "post m w =
     (let w1 = w\<lparr>posted := posted w @ [m]\<rparr> in
      case net w of
        None \<Rightarrow> (Inl ConnectionError, w1)
      | Some status \<Rightarrow>
          if 400 \<le> status \<and> status < 600 then (Inl (HTTPError status), w1) else (Inr (), w1))"

definition send_mail ::
  "recipients \<Rightarrow> string \<Rightarrow> string \<Rightarrow> string option \<Rightarrow> string option \<Rightarrow> world \<Rightarrow> (error + unit) \<times> world" where
  "send_mail to subject txt html from_email w =
     (if \<not> to_truthy to then (Inl AssertionError, w)
      else
        let to1 = to_list to;
            from1 = from_or_default from_email;
            w1 = print (Sending_Email to1) w
        in if DEBUG w1 then (Inr (), print (Debug_Mail from1 to1 subject (text_or_html txt html)) w1)
           else post \<lparr>m_domain = MAILGUN_DOMAIN_NAME w1, m_key = MAILGUN_API_KEY w1, m_from = from1,
                      m_to = join_commas to1, m_subject = subject, m_text = txt, m_html = html\<rparr> w1)"


section \<open>Rendering the alert message\<close>

text \<open>The decimal digits \<^verbatim>\<open>%d\<close> prints for a number that is not negative.\<close>

function decimal :: "int \<Rightarrow> string" where
  "decimal n =
     (if n < 10 then [''0123456789'' ! nat n]
      else decimal (n div 10) @ [''0123456789'' ! nat (n mod 10)])"
  by pat_completeness auto
termination
  by (relation "measure nat") auto

definition show_int :: "int \<Rightarrow> string" where
  "show_int i = (if i < 0 then ''-'' @ decimal (- i) else decimal i)"

text \<open>\<^verbatim>\<open>%02d\<close> and \<^verbatim>\<open>%06d\<close> on a number that is not negative.\<close>

definition zero_pad :: "nat \<Rightarrow> int \<Rightarrow> string" where
  "zero_pad width n = replicate (width - length (decimal n)) (CHR ''0'') @ decimal n"

text \<open>
  \<^verbatim>\<open>str\<close> of a \<^verbatim>\<open>timedelta\<close>, which is what \<^verbatim>\<open>'{idle_hours}'.format\<close> puts in the
  message for the \<^verbatim>\<open>timedelta\<close> it is given. CPython keeps a \<^verbatim>\<open>timedelta\<close> as days,
  seconds from 0 to 86399 and microseconds from 0 to 999999 (floor division, so a
  negative duration has negative days), and prints
  \<^verbatim>\<open>"%d:%02d:%02d" % (hh, mm, ss)\<close>, with \<^verbatim>\<open>"%d day%s, "\<close> in front when the days are
  not zero and \<^verbatim>\<open>".%06d"\<close> behind when the microseconds are not zero.
\<close>

definition str_timedelta :: "int \<Rightarrow> string" where
  "str_timedelta d =
     (let days = d div 86400000000;
          rest = d mod 86400000000;
          seconds = rest div 1000000;
          micros = rest mod 1000000;
          mm = seconds div 60;
          ss = seconds mod 60;
          hh = mm div 60;
          s = decimal hh @ '':'' @ zero_pad 2 (mm mod 60) @ '':'' @ zero_pad 2 ss;
          s1 = (if days \<noteq> 0
                then show_int days @ '' day'' @ (if \<bar>days\<bar> \<noteq> 1 then ''s'' else []) @ '', '' @ s
                else s)
      in if micros \<noteq> 0 then s1 @ ''.'' @ zero_pad 6 micros else s1)"

text \<open>\<^verbatim>\<open>timedelta(hours=h)\<close> and \<^verbatim>\<open>timedelta(minutes=m)\<close>\<close>

definition hours :: "int \<Rightarrow> int" where
  "hours h = h * 3600000000"

definition minutes :: "int \<Rightarrow> int" where
  "minutes m = m * 60000000"

text \<open>The constructor refuses a duration of more than 999999999 days in either direction
  with \<^verbatim>\<open>OverflowError\<close>; the days of \<open>m\<close> minutes are \<open>m\<close> divided by 1440, rounded
  down.\<close>

definition timedelta_minutes :: "int \<Rightarrow> error + int" where
  "timedelta_minutes m = (if \<bar>m div 1440\<bar> > 999999999 then Inl OverflowError else Inr (minutes m))"

definition ALERT_SUBJECT :: string where
  "ALERT_SUBJECT = ''Un-changed Directory Warning''"

text \<open>\<^verbatim>\<open>ALERT_MESSAGE.format(path=path, idle_hours=idle_hours)\<close> for a path that is a string
  and an \<open>idle_hours\<close> already rendered.\<close>

definition ALERT_MESSAGE :: "string \<Rightarrow> string \<Rightarrow> string" where
  \<open>ALERT_MESSAGE p idle_hours =
     ''<font color="red"><b>Warning!!! </b></font><p>The ['' @ p @
     ''] path was unchanged for about '' @ idle_hours @ '' hours!</p>''\<close>

section \<open>The idle monitor\<close>

record handler =
  path :: string
  idle_time_threshold :: int
  retry_alert_interval :: int
  event_types :: "string list option"
  alert_type :: string
  email_to :: recipients

text \<open>\<^verbatim>\<open>__init__\<close>: \<^verbatim>\<open>retry_alert_interval or idle_time_threshold\<close>, where \<^verbatim>\<open>None\<close> and
  \<^verbatim>\<open>timedelta(0)\<close> are false. No argument is checked.\<close>

definition NotifyIfIdleEventHandler ::
  "string \<Rightarrow> int \<Rightarrow> int option \<Rightarrow> string list option \<Rightarrow> string \<Rightarrow> recipients \<Rightarrow> handler" where
  "NotifyIfIdleEventHandler p idle retry types atype mail_to =
     \<lparr>path = p, idle_time_threshold = idle,
      retry_alert_interval = (case retry of None \<Rightarrow> idle | Some r \<Rightarrow> if r \<noteq> 0 then r else idle),
      event_types = types, alert_type = atype, email_to = mail_to\<rparr>"

record event =
  event_type :: string
  is_directory :: bool

text \<open>\<^verbatim>\<open>datetime - x\<close> for a stored \<open>x\<close>: a \<^verbatim>\<open>TypeError\<close> unless \<open>x\<close> is a datetime.\<close>

fun since :: "int \<Rightarrow> pyval \<Rightarrow> error + int" where
  "since now (PTime t) = Inr (now - t)"
| "since now _ = Inl TypeError"

definition check_send_alert :: "handler \<Rightarrow> world \<Rightarrow> (error + bool) \<times> world" where
  "check_send_alert h w =
     (case get_persist ''last_alert'' PNone (Some (path h)) w of
        Inl e \<Rightarrow> (Inl e, w)
      | Inr last_alert \<Rightarrow>
          if truthy last_alert then
            (case since (utcnow w) last_alert of
               Inl e \<Rightarrow> (Inl e, tick w)
             | Inr elapsed \<Rightarrow> (Inr (\<not> elapsed < retry_alert_interval h), tick w))
          else (Inr True, w))"

text \<open>The \<^verbatim>\<open>try\<close> block of \<^verbatim>\<open>send_alert\<close>.\<close>

definition notify :: "handler \<Rightarrow> string \<Rightarrow> world \<Rightarrow> (error + unit) \<times> world" where
  "notify h message w =
     (if alert_type h = ''email'' then send_mail (email_to h) ALERT_SUBJECT message (Some message) None w
      else if alert_type h = ''sms'' then (Inr (), print Sms_Not_Implemented w)
      else (Inl (NotImplementedError (''Not supported '' @ alert_type h @ '' alert type'')), w))"

definition send_alert :: "handler \<Rightarrow> world \<Rightarrow> (error + unit) \<times> world" where
  "send_alert h w =
     (let message = ALERT_MESSAGE (path h) (str_timedelta (idle_time_threshold h));
          w1 = (case notify h message w of
                  (Inl e, w') \<Rightarrow> print (Traceback e) w'
                | (Inr u, w') \<Rightarrow> w')
      in set_persist ''last_alert'' (PTime (utcnow w1)) (Some (path h)) (tick w1))"

definition check_idle :: "handler \<Rightarrow> world \<Rightarrow> (error + bool) \<times> world" where
  "check_idle h w =
     (case get_persist ''last_modified'' PNone (Some (path h)) w of
        Inl e \<Rightarrow> (Inl e, w)
      | Inr found \<Rightarrow>
          bind (if \<not> truthy found
                then bind (set_persist ''last_modified'' (PTime (utcnow w)) (Some (path h)) (tick w))
                          (\<lambda>u w'. (Inr (PTime (utcnow w)), w'))
                else (Inr found, w))
               (\<lambda>last_modified w'.
                  case since (utcnow w') last_modified of
                    Inl e \<Rightarrow> (Inl e, tick w')
                  | Inr elapsed \<Rightarrow> (Inr (elapsed > idle_time_threshold h), tick w')))"

definition wanted :: "handler \<Rightarrow> event \<Rightarrow> bool" where
  "wanted h ev = (case event_types h of None \<Rightarrow> True | Some ts \<Rightarrow> event_type ev \<in> set ts)"

definition dispatch :: "handler \<Rightarrow> event \<Rightarrow> world \<Rightarrow> (error + unit) \<times> world" where
  "dispatch h ev w =
     (if wanted h ev then
        (let w1 = print (Change_Detected (path h) (event_type ev) (is_directory ev)) w
         in set_persist ''last_modified'' (PTime (utcnow w1)) (Some (path h)) (tick w1))
      else (Inr (), w))"

text \<open>The observer delivers events to a handler one after the other; an exception in
  \<^verbatim>\<open>dispatch\<close> ends the delivery.\<close>

fun deliver :: "handler \<Rightarrow> event list \<Rightarrow> world \<Rightarrow> (error + unit) \<times> world" where
  "deliver h [] w = (Inr (), w)"
| "deliver h (ev # evs) w = bind (dispatch h ev w) (\<lambda>u w'. deliver h evs w')"


section \<open>The tick loop and \<^verbatim>\<open>main\<close>\<close>

text \<open>The body of the \<^verbatim>\<open>for\<close> loop at lines 183 to 189 for one handler: \<^verbatim>\<open>and\<close> does not
  call \<^verbatim>\<open>check_send_alert\<close> when \<^verbatim>\<open>check_idle\<close> is false; an exception of either check
  is not caught, one of \<^verbatim>\<open>send_alert\<close> is.\<close>

definition tick_handler :: "handler \<Rightarrow> world \<Rightarrow> (error + unit) \<times> world" where
  "tick_handler h w =
     bind (check_idle h w) (\<lambda>idle w1.
       if idle then
         bind (check_send_alert h w1) (\<lambda>allowed w2.
           if allowed then
             (case send_alert h (print (Long_Idle (path h)) w2) of
                (Inl e, w3) \<Rightarrow> (Inr (), print (Traceback e) (print Cannot_Send w3))
              | (Inr u, w3) \<Rightarrow> (Inr (), w3))
           else (Inr (), w2))
       else (Inr (), w1))"

fun tick_all :: "handler list \<Rightarrow> world \<Rightarrow> (error + unit) \<times> world" where
  "tick_all [] w = (Inr (), w)"
| "tick_all (h # hs) w = bind (tick_handler h w) (\<lambda>u w'. tick_all hs w')"

text \<open>
  \<^verbatim>\<open>while True\<close> runs until \<^verbatim>\<open>KeyboardInterrupt\<close>; the first argument is the number of
  complete iterations before the interrupt arrives. The interrupt stops the observer
  and the process ends with status 0; any other exception leaves the loop uncaught,
  and the interpreter prints it and ends with status 1.
\<close>

fun run_loop :: "nat \<Rightarrow> handler list \<Rightarrow> world \<Rightarrow> int \<times> world" where
  "run_loop 0 hs w = (0, w\<lparr>stopped := True\<rparr>)"
| "run_loop (Suc n) hs w =
     (case tick_all hs (w\<lparr>sleeps := Suc (sleeps w)\<rparr>) of
        (Inl e, w') \<Rightarrow> (1, print (Traceback e) w')
      | (Inr u, w') \<Rightarrow> run_loop n hs w')"

text \<open>The namespace \<^verbatim>\<open>parser.parse_args()\<close> returns, after the \<^verbatim>\<open>type=int\<close>
  conversions.\<close>

record args =
  arg_paths :: "string list"
  arg_alert_type :: string
  arg_email_to :: "string option"
  arg_idle_time_threshold :: int
  arg_retry_alert_interval :: "int option"
  arg_mailgun_domain :: "string option"
  arg_mailgun_api_key :: "string option"
  arg_debug :: bool
  arg_clean :: bool

text \<open>What \<^verbatim>\<open>argparse\<close> itself refuses, from the declarations at lines 133 and 134:
  \<^verbatim>\<open>nargs='+'\<close> wants one path at least, \<^verbatim>\<open>choices=['email', 'sms']\<close> one of the two
  alert types.\<close>

definition argparse_error :: "args \<Rightarrow> string option" where
  "argparse_error a =
     (if arg_paths a = [] then Some ''the following arguments are required: paths''
      else if arg_alert_type a \<noteq> ''email'' \<and> arg_alert_type a \<noteq> ''sms''
      then Some ''argument --alert-type: invalid choice''
      else None)"

text \<open>\<^verbatim>\<open>not x\<close> for an option that is \<^verbatim>\<open>None\<close> or a string.\<close>

fun blank :: "string option \<Rightarrow> bool" where
  "blank None = True"
| "blank (Some s) = (s = [])"

text \<open>\<^verbatim>\<open>s.split(',')\<close>\<close>

fun split_commas :: "string \<Rightarrow> string list" where
  "split_commas [] = [[]]"
| "split_commas (c # cs) =
     (if c = CHR '','' then [] # split_commas cs
      else (case split_commas cs of [] \<Rightarrow> [[c]] | x # xs \<Rightarrow> (c # x) # xs))"

text \<open>The \<^verbatim>\<open>for path in paths\<close> loop at lines 169 to 177: \<open>None\<close> is the \<^verbatim>\<open>return\<close> at
  line 172.\<close>

fun schedule_all :: "(string \<Rightarrow> handler) \<Rightarrow> string list \<Rightarrow> handler list \<Rightarrow> world \<Rightarrow> handler list option \<times> world" where
  "schedule_all mk [] hs w = (Some hs, w)"
| "schedule_all mk (p # ps) hs w =
     (if \<not> exists_path w p then (None, print (Invalid_Path p) w)
      else schedule_all mk ps (hs @ [mk p]) (w\<lparr>scheduled := scheduled w @ [p]\<rparr>))"

text \<open>\<^verbatim>\<open>if args.mailgun_domain: MAILGUN_DOMAIN_NAME = args.mailgun_domain\<close>, and the same
  for the key.\<close>

definition set_globals :: "args \<Rightarrow> world \<Rightarrow> world" where
  "set_globals a w =
     (let w1 = (case arg_mailgun_domain a of
                  None \<Rightarrow> w
                | Some d \<Rightarrow> if d \<noteq> [] then w\<lparr>MAILGUN_DOMAIN_NAME := d\<rparr> else w)
      in case arg_mailgun_api_key a of
           None \<Rightarrow> w1
         | Some k \<Rightarrow> if k \<noteq> [] then w1\<lparr>MAILGUN_API_KEY := k\<rparr> else w1)"

text \<open>Line 160: \<^verbatim>\<open>timedelta(minutes=args.retry_alert_interval) if args.retry_alert_interval
  else None\<close>, where \<^verbatim>\<open>None\<close> and 0 are false.\<close>

definition retry_interval :: "int option \<Rightarrow> error + int option" where
  "retry_interval r =
     (case r of
        None \<Rightarrow> Inr None
      | Some m \<Rightarrow>
          if m \<noteq> 0 then (case timedelta_minutes m of Inl e \<Rightarrow> Inl e | Inr d \<Rightarrow> Inr (Some d))
          else Inr None)"

text \<open>
  \<^verbatim>\<open>main\<close>, as the exit status of the process and the world it leaves.
  \<^verbatim>\<open>parser.error\<close> prints the usage and exits with status 2; returning from
  \<^verbatim>\<open>main\<close> ends the script normally, with status 0; an exception that nothing catches
  (a failed \<^verbatim>\<open>clean_persist\<close>, an \<^verbatim>\<open>OverflowError\<close> of \<^verbatim>\<open>timedelta\<close> at lines 159 and
  160, before \<^verbatim>\<open>Watching\<close> is printed) is printed by the interpreter, which ends with
  status 1.
\<close>

definition main :: "args \<Rightarrow> nat \<Rightarrow> world \<Rightarrow> int \<times> world" where
  "main a n w =
     (case argparse_error a of
        Some msg \<Rightarrow> (2, print (Usage_Error msg) w)
      | None \<Rightarrow>
         (case (if arg_clean a then clean_persist (print Cleaning (w\<lparr>DEBUG := arg_debug a\<rparr>))
                else (Inr (), w\<lparr>DEBUG := arg_debug a\<rparr>)) of
            (Inl e, w1) \<Rightarrow> (1, print (Traceback e) w1)
          | (Inr u, w1) \<Rightarrow>
              let paths = (if arg_paths a = [] then [''.''] else arg_paths a) in
              if arg_alert_type a = ''email'' \<and> blank (arg_email_to a)
              then (2, print (Usage_Error ''--email-to is required!'') w1)
              else if arg_alert_type a = ''email'' \<and> blank (arg_mailgun_domain a)
              then (2, print (Usage_Error ''--mailgun-domain is required!'') w1)
              else if arg_alert_type a = ''email'' \<and> blank (arg_mailgun_api_key a)
              then (2, print (Usage_Error ''--mailgun-api-key is required!'') w1)
              else
                let mail_to = (case arg_email_to a of
                                 None \<Rightarrow> To_None
                               | Some s \<Rightarrow> if s \<noteq> [] then To_List (split_commas s) else To_None);
                    w2 = set_globals a (print (Watching paths) w1)
                in case timedelta_minutes (arg_idle_time_threshold a) of
                     Inl e \<Rightarrow> (1, print (Traceback e) w1)
                   | Inr idle \<Rightarrow>
                      (case retry_interval (arg_retry_alert_interval a) of
                         Inl e \<Rightarrow> (1, print (Traceback e) w1)
                       | Inr retry \<Rightarrow>
                          (case schedule_all
                                  (\<lambda>p. NotifyIfIdleEventHandler p idle retry None (arg_alert_type a) mail_to)
                                  paths [] w2 of
                             (None, w3) \<Rightarrow> (0, w3)
                           | (Some hs, w3) \<Rightarrow> run_loop n hs (w3\<lparr>started := True\<rparr>)))))"


section \<open>Sample inputs\<close>

text \<open>A world at process start: no pickle file yet, a directory that can be written,
  a clock that advances by one microsecond at each reading, a mail endpoint that
  answers 200, and \<^verbatim>\<open>/data\<close> the only path that exists.\<close>

definition start :: world where
  "start = \<lparr>pickle_file = Missing, writable = True, clock = (\<lambda>n. int n), reads = 0, out = [],
            net = Some 200, posted = [], DEBUG = False,
            MAILGUN_DOMAIN_NAME = ''<MAILGUN_DOMAIN_NAME>'', MAILGUN_API_KEY = ''<MAILGUN_API_KEY>'',
            exists_path = (\<lambda>p. p = ''/data''), scheduled = [], started = False, stopped = False,
            sleeps = 0\<rparr>"

text \<open>A monitor of \<^verbatim>\<open>/data\<close> built as \<^verbatim>\<open>main\<close> builds it, for an idle threshold and an
  alert type.\<close>

definition monitor :: "int \<Rightarrow> string \<Rightarrow> handler" where
  "monitor idle atype = NotifyIfIdleEventHandler ''/data'' idle None None atype (To_List [''ops@example.org''])"

text \<open>When \<^verbatim>\<open>set_persist\<close> with workspace \<open>p\<close> goes through: the file can be written,
  what was loaded is a dictionary, and the entry \<open>p\<close> of it, if there is one, is a
  dictionary too (for an empty \<open>p\<close> the key is stored at the top level).\<close>

definition store_accepts :: "string \<Rightarrow> world \<Rightarrow> bool" where
  "store_accepts p w =
     (writable w \<and>
      (case load_data (pickle_file w) of
         PDict d \<Rightarrow> p = [] \<or> (case map_of d p of None \<Rightarrow> True | Some (PDict e) \<Rightarrow> True | Some _ \<Rightarrow> False)
       | _ \<Rightarrow> False))"

text \<open>The world at start with a store that holds an alert sent at time \<open>t\<close> for
  \<^verbatim>\<open>/data\<close>.\<close>

definition alerted :: "int \<Rightarrow> world" where
  "alerted t = start\<lparr>pickle_file := Pickled (PDict [(''/data'', PDict [(''last_alert'', PTime t)])])\<rparr>"

text \<open>The world at start with a store that holds an activity seen at time \<open>t\<close> in
  \<^verbatim>\<open>/data\<close>.\<close>

definition observed :: "int \<Rightarrow> world" where
  "observed t = start\<lparr>pickle_file := Pickled (PDict [(''/data'', PDict [(''last_modified'', PTime t)])])\<rparr>"

text \<open>A monitor of \<^verbatim>\<open>/data\<close> that reacts to the event types \<open>ts\<close> only, and a file event
  of a given type.\<close>

definition filtered :: "string list \<Rightarrow> handler" where
  "filtered ts = NotifyIfIdleEventHandler ''/data'' (hours 12) None (Some ts) ''email'' (To_List [''ops@example.org''])"

definition file_event :: "string \<Rightarrow> event" where
  "file_event kind = \<lparr>event_type = kind, is_directory = False\<rparr>"

text \<open>The arguments of
  \<^verbatim>\<open>script.py PATHS --alert-type T --email-to ops@example.org --mailgun-domain mg.example.org
  --mailgun-api-key key\<close>, the other options at their defaults.\<close>

definition cli :: "string list \<Rightarrow> string \<Rightarrow> args" where
  "cli paths atype =
     \<lparr>arg_paths = paths, arg_alert_type = atype, arg_email_to = Some ''ops@example.org'',
      arg_idle_time_threshold = 720, arg_retry_alert_interval = None,
      arg_mailgun_domain = Some ''mg.example.org'', arg_mailgun_api_key = Some ''key'',
      arg_debug = False, arg_clean = False\<rparr>"

section \<open>Facts about the sample inputs\<close>

lemma monitor_fields:
  "path (monitor d a) = ''/data''"
  "idle_time_threshold (monitor d a) = d"
  "retry_alert_interval (monitor d a) = d"
  "alert_type (monitor d a) = a"
  "event_types (monitor d a) = None"
  "email_to (monitor d a) = To_List [''ops@example.org'']"
  by (simp_all add: monitor_def NotifyIfIdleEventHandler_def)

lemma get_start: "get_persist name dflt ws start = Inr dflt"
  by (cases ws) (simp_all add: get_persist_def start_def py_or_def)

lemma get_alerted: "get_persist ''last_alert'' PNone (Some ''/data'') (alerted t) = Inr (PTime t)"
  by (simp add: get_persist_def alerted_def start_def py_or_def)

lemma utcnow_alerted: "utcnow (alerted t) = 0"
  by (simp add: utcnow_def alerted_def start_def)

section \<open>The cooldown gate\<close>

text \<open>
  C2. \<^verbatim>\<open>check_send_alert\<close> reads \<^verbatim>\<open>last_alert\<close> of the monitor's path. When none is
  stored it returns true and reads no clock. When a time \<open>t\<close> is stored it reads the
  clock once and returns true exactly when the time since \<open>t\<close> is at least
  \<^verbatim>\<open>retry_alert_interval\<close>, so false when it is less.
\<close>

theorem check_send_alert_cooldown:
  "(get_persist ''last_alert'' PNone (Some (path h)) w = Inr PNone \<longrightarrow>
      check_send_alert h w = (Inr True, w))
   \<and> (get_persist ''last_alert'' PNone (Some (path h)) w = Inr (PTime t) \<longrightarrow>
      check_send_alert h w = (Inr (utcnow w - t \<ge> retry_alert_interval h), tick w))"
  by (auto simp: check_send_alert_def)

theorem check_send_alert_cooldown_witness:
  "check_send_alert (monitor (minutes 10) ''email'') start = (Inr True, start)
   \<and> check_send_alert (monitor (minutes 10) ''email'') (alerted (- minutes 4))
       = (Inr False, tick (alerted (- minutes 4)))
   \<and> check_send_alert (monitor (minutes 10) ''email'') (alerted (- minutes 10))
       = (Inr True, tick (alerted (- minutes 10)))"
proof -
  let ?h = "monitor (minutes 10) ''email''"
  have "get_persist ''last_alert'' PNone (Some (path ?h)) start = Inr PNone"
    by (simp add: monitor_fields get_start)
  with check_send_alert_cooldown [of ?h start 0]
  have a: "check_send_alert ?h start = (Inr True, start)" by blast
  have "get_persist ''last_alert'' PNone (Some (path ?h)) (alerted (- minutes 4)) = Inr (PTime (- minutes 4))"
    by (simp add: monitor_fields get_alerted)
  with check_send_alert_cooldown [of ?h "alerted (- minutes 4)" "- minutes 4"]
  have b: "check_send_alert ?h (alerted (- minutes 4)) = (Inr False, tick (alerted (- minutes 4)))"
    by (simp add: monitor_fields utcnow_alerted minutes_def)
  have "get_persist ''last_alert'' PNone (Some (path ?h)) (alerted (- minutes 10)) = Inr (PTime (- minutes 10))"
    by (simp add: monitor_fields get_alerted)
  with check_send_alert_cooldown [of ?h "alerted (- minutes 10)" "- minutes 10"]
  have c: "check_send_alert ?h (alerted (- minutes 10)) = (Inr True, tick (alerted (- minutes 10)))"
    by (simp add: monitor_fields utcnow_alerted minutes_def)
  from a b c show ?thesis by blast
qed

section \<open>The recipients of \<^verbatim>\<open>send_mail\<close>\<close>

text \<open>
  C10. \<^verbatim>\<open>send_mail\<close> with no recipient (\<^verbatim>\<open>None\<close>, an empty list or an empty string)
  raises \<^verbatim>\<open>AssertionError\<close> and has done nothing else, whatever \<^verbatim>\<open>DEBUG\<close> is: the world
  is unchanged. A single address given as a string that is not empty is not refused, and
  is sent exactly as the list holding that one address.
\<close>

theorem send_mail_recipients:
  "(\<not> to_truthy to \<longrightarrow> send_mail to subject txt html from_email w = (Inl AssertionError, w))
   \<and> (s \<noteq> [] \<longrightarrow> send_mail (To_Str s) subject txt html from_email w
                     = send_mail (To_List [s]) subject txt html from_email w
                   \<and> fst (send_mail (To_Str s) subject txt html from_email w) \<noteq> Inl AssertionError)"
  by (auto simp: send_mail_def Let_def post_def split: option.splits)

theorem send_mail_recipients_witness:
  "send_mail To_None ''s'' ''t'' None None (start\<lparr>DEBUG := True\<rparr>)
     = (Inl AssertionError, start\<lparr>DEBUG := True\<rparr>)
   \<and> send_mail (To_Str ''a@b.c'') ''s'' ''t'' None None start
     = send_mail (To_List [''a@b.c'']) ''s'' ''t'' None None start
   \<and> fst (send_mail (To_Str ''a@b.c'') ''s'' ''t'' None None start) \<noteq> Inl AssertionError"
  using send_mail_recipients [of To_None "''s''" "''t''" None None "start\<lparr>DEBUG := True\<rparr>" "''a@b.c''"]
        send_mail_recipients [of To_None "''s''" "''t''" None None start "''a@b.c''"]
  by auto

section \<open>Facts about the store functions\<close>

lemma update_not_Nil: "AList.update k v al \<noteq> []"
  by (cases al) auto

lemma dict_setitem_Inr: "dict_setitem x k v = Inr y \<longleftrightarrow> (\<exists>e. x = PDict e \<and> y = PDict (AList.update k v e))"
  by (cases x) auto

lemma put_workspace_Inr:
  "put_workspace data k v p = Inr data' \<longleftrightarrow>
     (\<exists>d e. data = PDict d \<and> (map_of d p = None \<and> e = [] \<or> map_of d p = Some (PDict e))
          \<and> data' = PDict (AList.update p (PDict (AList.update k v e)) d))"
  by (cases data) (auto simp: put_workspace_def dict_setitem_Inr split: sum.splits option.splits)

lemma py_or_update: "py_or (PDict (AList.update k v d)) x = PDict (AList.update k v d)"
  by (simp add: py_or_def update_not_Nil)

lemma lookup_flat: "\<not> ws_truthy ws \<Longrightarrow> lookup data k dflt ws = dict_get data k dflt"
  by (cases ws) auto

lemma put_flat: "\<not> ws_truthy ws \<Longrightarrow> put data k v ws = dict_setitem data k v"
  by (cases ws) auto

lemma put_result:
  assumes "put data k v ws = Inr data'"
  shows "py_or data' x = data'"
proof (cases "ws_truthy ws")
  case False
  with assms obtain e where "data' = PDict (AList.update k v e)"
    unfolding put_flat [OF False] dict_setitem_Inr by blast
  then show ?thesis by (simp only: py_or_update)
next
  case True
  then obtain p where "ws = Some p" "p \<noteq> []" by (cases ws) auto
  with assms have "put_workspace data k v p = Inr data'" by simp
  then obtain d e where "data' = PDict (AList.update p (PDict (AList.update k v e)) d)"
    unfolding put_workspace_Inr by blast
  then show ?thesis by (simp only: py_or_update)
qed

lemma dict_get_update_same: "dict_get (PDict (AList.update k v d)) k dflt = Inr v"
  by (simp add: update_conv')

lemma dict_get_update_other:
  "k' \<noteq> k \<Longrightarrow> dict_get (PDict (AList.update k v d)) k' dflt = dict_get (PDict d) k' dflt"
  by (simp add: update_conv')

lemma put_lookup_same: "put data k v ws = Inr data' \<Longrightarrow> lookup data' k dflt ws = Inr v"
proof (cases "ws_truthy ws")
  case False
  assume "put data k v ws = Inr data'"
  with False obtain e where "data' = PDict (AList.update k v e)"
    by (auto simp: put_flat dict_setitem_Inr)
  with False show ?thesis by (simp add: lookup_flat dict_get_update_same del: dict_get.simps)
next
  case True
  then obtain p where ws: "ws = Some p" "p \<noteq> []" by (cases ws) auto
  assume "put data k v ws = Inr data'"
  with ws obtain d e where "data' = PDict (AList.update p (PDict (AList.update k v e)) d)"
    by (auto simp: put_workspace_Inr)
  with ws show ?thesis by (simp add: dict_get_update_same py_or_update del: dict_get.simps)
qed

lemma put_lookup_other:
  assumes p: "put data k v ws = Inr data'"
    and o: "(ws_truthy ws \<and> ws_truthy ws' \<and> (ws' \<noteq> ws \<or> k' \<noteq> k))
       \<or> (\<not> ws_truthy ws \<and> \<not> ws_truthy ws' \<and> k' \<noteq> k)
       \<or> (ws_truthy ws \<and> \<not> ws_truthy ws' \<and> Some k' \<noteq> ws)
       \<or> (\<not> ws_truthy ws \<and> ws_truthy ws' \<and> ws' \<noteq> Some k)"
  shows "lookup data' k' dflt ws' = lookup data k' dflt ws'"
proof (cases "ws_truthy ws")
  case False
  with p obtain e where d: "data = PDict e" "data' = PDict (AList.update k v e)"
    by (auto simp: put_flat dict_setitem_Inr)
  show ?thesis
  proof (cases "ws_truthy ws'")
    case f: False
    with False o have "k' \<noteq> k" by auto
    with f show ?thesis by (simp add: lookup_flat d dict_get_update_other del: dict_get.simps)
  next
    case True
    then obtain q where q: "ws' = Some q" "q \<noteq> []" by (cases ws') auto
    with False o have "q \<noteq> k" by auto
    with q show ?thesis by (simp add: d dict_get_update_other del: dict_get.simps)
  qed
next
  case True
  then obtain a where ws: "ws = Some a" "a \<noteq> []" by (cases ws) auto
  with p obtain d e where d: "data = PDict d" "map_of d a = None \<and> e = [] \<or> map_of d a = Some (PDict e)"
      "data' = PDict (AList.update a (PDict (AList.update k v e)) d)"
    by (auto simp: put_workspace_Inr)
  show ?thesis
  proof (cases "ws_truthy ws'")
    case False
    with True o ws have "k' \<noteq> a" by auto
    with False show ?thesis by (simp add: lookup_flat d dict_get_update_other del: dict_get.simps)
  next
    case t: True
    then obtain q where q: "ws' = Some q" "q \<noteq> []" by (cases ws') auto
    show ?thesis
    proof (cases "q = a")
      case False
      with q show ?thesis by (simp add: d dict_get_update_other del: dict_get.simps)
    next
      case qa: True
      with o True t q ws have kk: "k' \<noteq> k" by auto
      from d(2) have "dict_get (py_or (case map_of d a of None \<Rightarrow> PNone | Some x \<Rightarrow> x) (PDict [])) k' dflt
           = dict_get (PDict e) k' dflt"
        by (auto simp: py_or_def)
      with kk q qa show ?thesis
        by (simp add: d(1,3) dict_get_update_same dict_get_update_other py_or_update del: dict_get.simps)
           (simp add: update_conv')
    qed
  qed
qed

lemma set_persist_Inr:
  "set_persist k v ws w = (Inr (), w') \<longleftrightarrow>
     (\<exists>data'. put (load_data (pickle_file w)) k v ws = Inr data' \<and> writable w \<and> w' = w\<lparr>pickle_file := Pickled data'\<rparr>)"
  by (auto simp: set_persist_def dump_def split: sum.splits if_splits)

lemma load_put: "put data k v ws = Inr data' \<Longrightarrow> load_data (Pickled data') = data'"
  by (simp add: put_result)

lemma set_then_get:
  assumes "set_persist k v ws w = (Inr (), w')"
  shows "get_persist k dflt ws w' = Inr v"
proof -
  from assms obtain data' where p: "put (load_data (pickle_file w)) k v ws = Inr data'"
    and w': "w' = w\<lparr>pickle_file := Pickled data'\<rparr>"
    by (auto simp: set_persist_Inr)
  have "load_data (pickle_file w') = data'" unfolding w' using load_put [OF p] by simp
  then show ?thesis
    unfolding get_persist_def by (simp only: put_lookup_same [OF p])
qed

lemma set_keeps_others:
  assumes "set_persist k v ws w = (Inr (), w')"
    and "(ws_truthy ws \<and> ws_truthy ws' \<and> (ws' \<noteq> ws \<or> k' \<noteq> k))
       \<or> (\<not> ws_truthy ws \<and> \<not> ws_truthy ws' \<and> k' \<noteq> k)
       \<or> (ws_truthy ws \<and> \<not> ws_truthy ws' \<and> Some k' \<noteq> ws)
       \<or> (\<not> ws_truthy ws \<and> ws_truthy ws' \<and> ws' \<noteq> Some k)"
  shows "get_persist k' dflt ws' w' = get_persist k' dflt ws' w"
proof -
  from assms(1) obtain data' where p: "put (load_data (pickle_file w)) k v ws = Inr data'"
    and w': "w' = w\<lparr>pickle_file := Pickled data'\<rparr>"
    by (auto simp: set_persist_Inr)
  have "load_data (pickle_file w') = data'" unfolding w' using load_put [OF p] by simp
  then show ?thesis
    unfolding get_persist_def by (simp only: put_lookup_other [OF p assms(2)])
qed

lemma store_accepts_put:
  "store_accepts (case ws of None \<Rightarrow> [] | Some p \<Rightarrow> p) w \<Longrightarrow>
     \<exists>data'. put (load_data (pickle_file w)) k v ws = Inr data'"
proof (cases "load_data (pickle_file w)")
  case (PDict d)
  assume a: "store_accepts (case ws of None \<Rightarrow> [] | Some p \<Rightarrow> p) w"
  show ?thesis
  proof (cases ws)
    case None
    then show ?thesis by (simp add: PDict)
  next
    case (Some p)
    show ?thesis
    proof (cases "map_of d p")
      case None
      then show ?thesis by (simp add: Some PDict put_workspace_Inr dict_setitem_Inr)
    next
      case (Some x)
      note x = this
      show ?thesis
      proof (cases "p = []")
        case True
        then show ?thesis by (simp add: \<open>ws = Some p\<close> PDict)
      next
        case False
        with a x have "\<exists>e. x = PDict e"
          by (cases x) (simp_all add: store_accepts_def PDict \<open>ws = Some p\<close>)
        with x False show ?thesis
          by (auto simp: \<open>ws = Some p\<close> PDict put_workspace_Inr)
      qed
    qed
  qed
qed (simp_all add: store_accepts_def)

lemma store_accepts_set:
  "store_accepts (case ws of None \<Rightarrow> [] | Some p \<Rightarrow> p) w \<Longrightarrow> \<exists>w'. set_persist k v ws w = (Inr (), w')"
  using store_accepts_put [of ws w k v]
  by (auto simp: set_persist_Inr store_accepts_def)

lemma clean_then_get: "clean_persist w = (Inr (), w') \<Longrightarrow> get_persist k dflt ws w' = Inr dflt"
  by (cases ws) (auto simp: clean_persist_def dump_def get_persist_def py_or_def split: if_splits)

section \<open>The store: writing and reading back\<close>

text \<open>
  C8 (as amended). Whenever \<^verbatim>\<open>set_persist(k, v, workspace=ws)\<close> returns without raising,
  \<^verbatim>\<open>get_persist(k, workspace=ws)\<close> on the store it leaves returns \<open>v\<close>, and the value under
  any other key of the same workspace, under any other workspace, and under any other
  key stored without workspace is what it was before. Keys stored without a workspace
  and workspace names share the top level of the one dictionary, so the entry that
  must differ is the top-level one: a key \<open>k'\<close> without workspace is kept when \<open>k'\<close> is
  not the workspace written to, and a workspace \<open>ws'\<close> is kept when it is not the key
  written without workspace. The call returns without raising when the file can be
  written and the loaded object is a dictionary whose entry for the workspace is absent
  or a dictionary. After \<^verbatim>\<open>clean_persist\<close> on a writable file every \<^verbatim>\<open>get_persist\<close>
  returns its default.
\<close>

theorem set_get_round_trip:
  "(set_persist k v ws w = (Inr (), w') \<longrightarrow>
       get_persist k dflt ws w' = Inr v
     \<and> ((ws_truthy ws \<and> ws_truthy ws' \<and> (ws' \<noteq> ws \<or> k' \<noteq> k))
        \<or> (\<not> ws_truthy ws \<and> \<not> ws_truthy ws' \<and> k' \<noteq> k)
        \<or> (ws_truthy ws \<and> \<not> ws_truthy ws' \<and> Some k' \<noteq> ws)
        \<or> (\<not> ws_truthy ws \<and> ws_truthy ws' \<and> ws' \<noteq> Some k)
        \<longrightarrow> get_persist k' dflt' ws' w' = get_persist k' dflt' ws' w))
   \<and> (store_accepts (case ws of None \<Rightarrow> [] | Some p \<Rightarrow> p) w \<longrightarrow> fst (set_persist k v ws w) = Inr ())
   \<and> (writable w \<longrightarrow> fst (clean_persist w) = Inr ()
        \<and> get_persist k dflt ws (snd (clean_persist w)) = Inr dflt)"
proof (intro conjI impI)
  assume a: "set_persist k v ws w = (Inr (), w')"
  show "get_persist k dflt ws w' = Inr v" by (rule set_then_get [OF a])
  assume "(ws_truthy ws \<and> ws_truthy ws' \<and> (ws' \<noteq> ws \<or> k' \<noteq> k))
        \<or> (\<not> ws_truthy ws \<and> \<not> ws_truthy ws' \<and> k' \<noteq> k)
        \<or> (ws_truthy ws \<and> \<not> ws_truthy ws' \<and> Some k' \<noteq> ws)
        \<or> (\<not> ws_truthy ws \<and> ws_truthy ws' \<and> ws' \<noteq> Some k)"
  then show "get_persist k' dflt' ws' w' = get_persist k' dflt' ws' w"
    by (rule set_keeps_others [OF a])
next
  assume "store_accepts (case ws of None \<Rightarrow> [] | Some p \<Rightarrow> p) w"
  from store_accepts_set [OF this, of k v] show "fst (set_persist k v ws w) = Inr ()" by auto
next
  assume w: "writable w"
  then show "fst (clean_persist w) = Inr ()" by (simp add: clean_persist_def dump_def)
  from w have "clean_persist w = (Inr (), snd (clean_persist w))" by (simp add: clean_persist_def dump_def)
  then show "get_persist k dflt ws (snd (clean_persist w)) = Inr dflt" by (rule clean_then_get)
qed

lemma set_alerted:
  "set_persist ''last_alert'' (PTime t') (Some ''/data'') (alerted t) = (Inr (), alerted t')"
  by (simp add: set_persist_def alerted_def start_def py_or_def put_workspace_def dump_def)

lemma accepts_alerted: "store_accepts ''/data'' (alerted t)"
  by (simp add: store_accepts_def alerted_def start_def py_or_def)

theorem set_get_round_trip_witness:
  "set_persist ''last_alert'' (PTime 5) (Some ''/data'') (alerted 3) = (Inr (), alerted 5)
   \<and> get_persist ''last_alert'' PNone (Some ''/data'') (alerted 5) = Inr (PTime 5)
   \<and> get_persist ''last_alert'' PNone (Some ''/srv'') (alerted 5)
      = get_persist ''last_alert'' PNone (Some ''/srv'') (alerted 3)
   \<and> get_persist ''last_alert'' PNone (Some ''/data'') (snd (clean_persist (alerted 3))) = Inr PNone"
proof -
  have w: "writable (alerted 3)" by (simp add: alerted_def start_def)
  from set_get_round_trip [of "''last_alert''" "PTime 5" "Some ''/data''" "alerted 3" "alerted 5"
      PNone "Some ''/srv''" "''last_alert''" PNone]
    set_alerted [of 5 3] accepts_alerted [of 3] w
  show ?thesis by simp
qed

text \<open>
  After \<^verbatim>\<open>set_persist('W', 5)\<close> without workspace on a store that does not exist yet, the
  entry \<open>W\<close> is a number: \<^verbatim>\<open>set_persist('k', 1, workspace='W')\<close> raises \<^verbatim>\<open>TypeError\<close>
  and \<^verbatim>\<open>get_persist('k', workspace='W')\<close> raises \<^verbatim>\<open>AttributeError\<close>.
\<close>

theorem round_trip_counterexample:
  "set_persist ''W'' (PInt 5) None start = (Inr (), start\<lparr>pickle_file := Pickled (PDict [(''W'', PInt 5)])\<rparr>)
   \<and> set_persist ''k'' (PInt 1) (Some ''W'') (start\<lparr>pickle_file := Pickled (PDict [(''W'', PInt 5)])\<rparr>)
       = (Inl TypeError, start\<lparr>pickle_file := Pickled (PDict [(''W'', PInt 5)])\<rparr>)
   \<and> get_persist ''k'' PNone (Some ''W'') (start\<lparr>pickle_file := Pickled (PDict [(''W'', PInt 5)])\<rparr>)
       = Inl AttributeError"
  by (simp add: set_persist_def get_persist_def start_def py_or_def put_workspace_def dump_def)

section \<open>The store: what a failure does\<close>

lemma load_unreadable:
  "pickle_file w = Missing \<or> pickle_file w = Garbage \<or> (\<exists>v. pickle_file w = Pickled v \<and> \<not> truthy v)
   \<Longrightarrow> load_data (pickle_file w) = PDict []"
  by (auto simp: py_or_def)

lemma lookup_empty: "lookup (PDict []) name dflt ws = Inr dflt"
  by (cases ws) (simp_all add: py_or_def)

lemma put_empty:
  "put (PDict []) name val ws =
     Inr (if ws_truthy ws then PDict [(case ws of None \<Rightarrow> [] | Some p \<Rightarrow> p, PDict [(name, val)])]
          else PDict [(name, val)])"
  by (cases ws) (simp_all add: put_workspace_def)

lemma set_unwritable: "\<not> writable w \<Longrightarrow> \<exists>e. set_persist name val ws w = (Inl e, w)"
  by (simp add: set_persist_def dump_def split: sum.splits)

text \<open>
  C7 (as amended). When the pickle file is missing, does not unpickle, or unpickles to
  \<^verbatim>\<open>None\<close> or another false value, \<^verbatim>\<open>get_persist\<close> returns its default and, on a
  writable file, \<^verbatim>\<open>set_persist\<close> returns without raising and leaves exactly the store
  it leaves when the file held the empty dictionary. A failure to open the file for
  writing is not caught: \<^verbatim>\<open>clean_persist\<close> raises \<^verbatim>\<open>OSError\<close>, \<^verbatim>\<open>set_persist\<close> raises
  (\<^verbatim>\<open>OSError\<close> when the file was unreadable as above), and the world is unchanged.
\<close>

theorem persist_failure_policy:
  "(pickle_file w = Missing \<or> pickle_file w = Garbage \<or> (\<exists>v. pickle_file w = Pickled v \<and> \<not> truthy v) \<longrightarrow>
      get_persist name dflt ws w = Inr dflt
    \<and> (writable w \<longrightarrow>
         set_persist name val ws w =
           (Inr (), w\<lparr>pickle_file := Pickled
              (if ws_truthy ws then PDict [(case ws of None \<Rightarrow> [] | Some p \<Rightarrow> p, PDict [(name, val)])]
               else PDict [(name, val)])\<rparr>)
       \<and> set_persist name val ws (w\<lparr>pickle_file := Pickled (PDict [])\<rparr>) =
           (Inr (), w\<lparr>pickle_file := Pickled
              (if ws_truthy ws then PDict [(case ws of None \<Rightarrow> [] | Some p \<Rightarrow> p, PDict [(name, val)])]
               else PDict [(name, val)])\<rparr>))
    \<and> (\<not> writable w \<longrightarrow> set_persist name val ws w = (Inl OSError, w)))
   \<and> (\<not> writable w \<longrightarrow> clean_persist w = (Inl OSError, w) \<and> (\<exists>e. set_persist name val ws w = (Inl e, w)))"
proof (intro conjI impI)
  assume u: "pickle_file w = Missing \<or> pickle_file w = Garbage \<or> (\<exists>v. pickle_file w = Pickled v \<and> \<not> truthy v)"
  note l = load_unreadable [OF u]
  show "get_persist name dflt ws w = Inr dflt"
    by (simp only: get_persist_def l lookup_empty)
  {
    assume wr: "writable w"
    show "set_persist name val ws w =
           (Inr (), w\<lparr>pickle_file := Pickled
              (if ws_truthy ws then PDict [(case ws of None \<Rightarrow> [] | Some p \<Rightarrow> p, PDict [(name, val)])]
               else PDict [(name, val)])\<rparr>)"
      unfolding set_persist_def l put_empty using wr by (simp add: dump_def)
    show "set_persist name val ws (w\<lparr>pickle_file := Pickled (PDict [])\<rparr>) =
           (Inr (), w\<lparr>pickle_file := Pickled
              (if ws_truthy ws then PDict [(case ws of None \<Rightarrow> [] | Some p \<Rightarrow> p, PDict [(name, val)])]
               else PDict [(name, val)])\<rparr>)"
      unfolding set_persist_def using wr by (simp add: py_or_def put_empty dump_def)
  }
  {
    assume nw: "\<not> writable w"
    show "set_persist name val ws w = (Inl OSError, w)"
      unfolding set_persist_def l put_empty using nw by (simp add: dump_def)
  }
next
  assume nw: "\<not> writable w"
  then show "clean_persist w = (Inl OSError, w)" by (simp add: clean_persist_def dump_def)
  from nw show "\<exists>e. set_persist name val ws w = (Inl e, w)" by (rule set_unwritable)
qed

theorem persist_failure_policy_witness:
  "get_persist ''last_alert'' (PInt 7) (Some ''/data'') start = Inr (PInt 7)
   \<and> set_persist ''last_alert'' (PTime 3) (Some ''/data'') start = (Inr (), alerted 3)
   \<and> set_persist ''last_alert'' (PTime 3) (Some ''/data'') (start\<lparr>writable := False\<rparr>)
        = (Inl OSError, start\<lparr>writable := False\<rparr>)
   \<and> clean_persist (start\<lparr>writable := False\<rparr>) = (Inl OSError, start\<lparr>writable := False\<rparr>)"
proof -
  have m: "pickle_file start = Missing" "writable start" by (simp_all add: start_def)
  have m': "pickle_file (start\<lparr>writable := False\<rparr>) = Missing" "\<not> writable (start\<lparr>writable := False\<rparr>)"
    by (simp_all add: start_def)
  from persist_failure_policy [of start "''last_alert''" "PInt 7" "Some ''/data''" "PTime 3"] m
  have a: "get_persist ''last_alert'' (PInt 7) (Some ''/data'') start = Inr (PInt 7)"
    and b: "set_persist ''last_alert'' (PTime 3) (Some ''/data'') start = (Inr (), alerted 3)"
    by (simp_all add: alerted_def)
  from persist_failure_policy [of "start\<lparr>writable := False\<rparr>" "''last_alert''" "PInt 7" "Some ''/data''" "PTime 3"] m'
  have c: "set_persist ''last_alert'' (PTime 3) (Some ''/data'') (start\<lparr>writable := False\<rparr>)
        = (Inl OSError, start\<lparr>writable := False\<rparr>)"
    and d: "clean_persist (start\<lparr>writable := False\<rparr>) = (Inl OSError, start\<lparr>writable := False\<rparr>)"
    by simp_all
  from a b c d show ?thesis by blast
qed

text \<open>
  A file that unpickles to the number 1 holds no mapping, and both \<^verbatim>\<open>get_persist\<close> and
  \<^verbatim>\<open>set_persist\<close> raise \<^verbatim>\<open>AttributeError\<close>.
\<close>

theorem truthy_non_mapping_counterexample:
  "get_persist ''last_alert'' PNone (Some ''/data'') (start\<lparr>pickle_file := Pickled (PInt 1)\<rparr>) = Inl AttributeError
   \<and> set_persist ''last_alert'' (PTime 3) (Some ''/data'') (start\<lparr>pickle_file := Pickled (PInt 1)\<rparr>)
       = (Inl AttributeError, start\<lparr>pickle_file := Pickled (PInt 1)\<rparr>)"
  by (simp add: get_persist_def set_persist_def put_workspace_def py_or_def)

section \<open>The idle check\<close>

lemma get_persist_tick: "get_persist k d ws (tick w) = get_persist k d ws w"
  by (simp add: get_persist_def tick_def)

lemma set_persist_clock:
  "set_persist k v ws w = (r, w') \<Longrightarrow> clock w' = clock w \<and> reads w' = reads w \<and> out w' = out w"
  by (auto simp: set_persist_def dump_def split: sum.splits if_splits)

text \<open>
  C1 (as amended). \<^verbatim>\<open>check_idle\<close> reads \<^verbatim>\<open>last_modified\<close> of the monitor's path. When a
  time \<open>t\<close> is stored it reads the clock once and returns true exactly when the time
  since \<open>t\<close> is greater than \<^verbatim>\<open>idle_time_threshold\<close>; the store is not written. When none
  is stored and the write goes through, it reads the clock, stores that reading as
  \<^verbatim>\<open>last_modified\<close>, reads the clock a second time and returns true exactly when the
  second reading minus the first is greater than \<^verbatim>\<open>idle_time_threshold\<close>. So the call
  that initialises returns false exactly when the threshold is at least the time
  between its two clock readings.
\<close>

theorem check_idle_spec:
  "(get_persist ''last_modified'' PNone (Some (path h)) w = Inr (PTime t) \<longrightarrow>
      check_idle h w = (Inr (utcnow w - t > idle_time_threshold h), tick w))
   \<and> (get_persist ''last_modified'' PNone (Some (path h)) w = Inr PNone
      \<and> set_persist ''last_modified'' (PTime (utcnow w)) (Some (path h)) (tick w) = (Inr (), w') \<longrightarrow>
        check_idle h w = (Inr (utcnow w' - utcnow w > idle_time_threshold h), tick w')
      \<and> utcnow w' = clock w (Suc (reads w))
      \<and> get_persist ''last_modified'' PNone (Some (path h)) (tick w') = Inr (PTime (utcnow w)))"
proof (intro conjI impI)
  assume "get_persist ''last_modified'' PNone (Some (path h)) w = Inr (PTime t)"
  then show "check_idle h w = (Inr (utcnow w - t > idle_time_threshold h), tick w)"
    by (simp add: check_idle_def bind_def)
next
  assume a: "get_persist ''last_modified'' PNone (Some (path h)) w = Inr PNone
      \<and> set_persist ''last_modified'' (PTime (utcnow w)) (Some (path h)) (tick w) = (Inr (), w')"
  then show "check_idle h w = (Inr (utcnow w' - utcnow w > idle_time_threshold h), tick w')"
    by (simp add: check_idle_def bind_def)
  from a set_persist_clock [of "''last_modified''" "PTime (utcnow w)" "Some (path h)" "tick w" "Inr ()" w']
  show "utcnow w' = clock w (Suc (reads w))"
    by (simp add: utcnow_def tick_def)
  from a have "set_persist ''last_modified'' (PTime (utcnow w)) (Some (path h)) (tick w) = (Inr (), w')"
    by simp
  from set_then_get [OF this]
  show "get_persist ''last_modified'' PNone (Some (path h)) (tick w') = Inr (PTime (utcnow w))"
    by (simp add: get_persist_tick)
qed

lemma get_observed: "get_persist ''last_modified'' PNone (Some ''/data'') (observed t) = Inr (PTime t)"
  by (simp add: get_persist_def observed_def start_def py_or_def)

lemma utcnow_observed: "utcnow (observed t) = 0"
  by (simp add: utcnow_def observed_def start_def)

lemma set_start_modified:
  "set_persist ''last_modified'' (PTime t) (Some ''/data'') (tick start) = (Inr (), tick (observed t))"
  by (simp add: set_persist_def observed_def start_def tick_def put_workspace_def dump_def)

lemma utcnow_start: "utcnow start = 0" "utcnow (tick start) = 1" "utcnow (tick (observed t)) = 1"
  by (simp_all add: utcnow_def start_def tick_def observed_def)

theorem check_idle_spec_witness:
  "check_idle (monitor (minutes 10) ''email'') (observed (- minutes 11))
     = (Inr True, tick (observed (- minutes 11)))
   \<and> check_idle (monitor (minutes 10) ''email'') (observed (- minutes 10))
     = (Inr False, tick (observed (- minutes 10)))
   \<and> check_idle (monitor (minutes 10) ''email'') start = (Inr False, tick (tick (observed 0)))
   \<and> get_persist ''last_modified'' PNone (Some ''/data'') (tick (tick (observed 0))) = Inr (PTime 0)"
proof -
  let ?h = "monitor (minutes 10) ''email''"
  have "get_persist ''last_modified'' PNone (Some (path ?h)) (observed (- minutes 11)) = Inr (PTime (- minutes 11))"
    by (simp add: monitor_fields get_observed)
  with check_idle_spec [of ?h "observed (- minutes 11)" "- minutes 11"]
  have a: "check_idle ?h (observed (- minutes 11)) = (Inr True, tick (observed (- minutes 11)))"
    by (simp add: monitor_fields utcnow_observed minutes_def)
  have "get_persist ''last_modified'' PNone (Some (path ?h)) (observed (- minutes 10)) = Inr (PTime (- minutes 10))"
    by (simp add: monitor_fields get_observed)
  with check_idle_spec [of ?h "observed (- minutes 10)" "- minutes 10"]
  have b: "check_idle ?h (observed (- minutes 10)) = (Inr False, tick (observed (- minutes 10)))"
    by (simp add: monitor_fields utcnow_observed minutes_def)
  have g: "get_persist ''last_modified'' PNone (Some (path ?h)) start = Inr PNone"
    by (simp add: monitor_fields get_start)
  have s: "set_persist ''last_modified'' (PTime (utcnow start)) (Some (path ?h)) (tick start)
            = (Inr (), tick (observed 0))"
    by (simp add: monitor_fields utcnow_start set_start_modified)
  from check_idle_spec [of ?h start 0 "tick (observed 0)"] g s
  have c: "check_idle ?h start = (Inr False, tick (tick (observed 0)))"
    and d: "get_persist ''last_modified'' PNone (Some ''/data'') (tick (tick (observed 0))) = Inr (PTime 0)"
    by (simp_all add: monitor_fields utcnow_start minutes_def)
  from a b c d show ?thesis by blast
qed

text \<open>
  With a threshold of zero and a clock that has advanced by one microsecond between the
  two readings, the call that initialises \<^verbatim>\<open>last_modified\<close> returns true.
\<close>

theorem lazy_init_idle_counterexample:
  "get_persist ''last_modified'' PNone (Some (path (monitor 0 ''email''))) start = Inr PNone
   \<and> check_idle (monitor 0 ''email'') start = (Inr True, tick (tick (observed 0)))"
  by (simp add: monitor_fields get_start check_idle_def bind_def utcnow_start set_start_modified)

section \<open>Sending an alert\<close>












section \<open>Recording activity\<close>

lemma deliver_unwanted: "(\<forall>ev \<in> set evs. \<not> wanted h ev) \<Longrightarrow> deliver h evs w = (Inr (), w)"
  by (induction evs) (simp_all add: dispatch_def bind_def)

lemma filtered_fields: "path (filtered ts) = ''/data''" "event_types (filtered ts) = Some ts"
  by (simp_all add: filtered_def NotifyIfIdleEventHandler_def)

text \<open>
  C4 (as amended). \<^verbatim>\<open>dispatch\<close> reacts to an event exactly when the monitor's
  \<^verbatim>\<open>event_types\<close> is \<^verbatim>\<open>None\<close> or holds the event's type; a filter that is empty but not
  \<^verbatim>\<open>None\<close> holds no type. An event it does not react to leaves the whole world as it
  was, and so does any sequence of such events. For an event it reacts to, when the
  store accepts a write for the path, \<^verbatim>\<open>dispatch\<close> returns and the stored
  \<^verbatim>\<open>last_modified\<close> is the clock reading it took.
\<close>

theorem dispatch_filter:
  "wanted h ev = (event_types h = None \<or> (\<exists>ts. event_types h = Some ts \<and> event_type ev \<in> set ts))
   \<and> (\<not> wanted h ev \<longrightarrow> dispatch h ev w = (Inr (), w))
   \<and> ((\<forall>e \<in> set evs. \<not> wanted h e) \<longrightarrow> deliver h evs w = (Inr (), w))
   \<and> (wanted h ev \<and> store_accepts (path h) w \<longrightarrow>
        fst (dispatch h ev w) = Inr ()
      \<and> get_persist ''last_modified'' PNone (Some (path h)) (snd (dispatch h ev w)) = Inr (PTime (utcnow w)))"
proof (intro conjI impI)
  show "wanted h ev = (event_types h = None \<or> (\<exists>ts. event_types h = Some ts \<and> event_type ev \<in> set ts))"
    by (cases "event_types h") (simp_all add: wanted_def)
  show "dispatch h ev w = (Inr (), w)" if "\<not> wanted h ev"
    using that by (simp add: dispatch_def)
  show "deliver h evs w = (Inr (), w)" if "\<forall>e \<in> set evs. \<not> wanted h e"
    using that by (rule deliver_unwanted)
next
  assume a: "wanted h ev \<and> store_accepts (path h) w"
  let ?w1 = "tick (print (Change_Detected (path h) (event_type ev) (is_directory ev)) w)"
  have d: "dispatch h ev w = set_persist ''last_modified'' (PTime (utcnow w)) (Some (path h)) ?w1"
    using a by (simp add: dispatch_def Let_def utcnow_def print_def)
  from a have "store_accepts (case Some (path h) of None \<Rightarrow> [] | Some p \<Rightarrow> p) ?w1"
    by (simp add: store_accepts_def tick_def print_def)
  from store_accepts_set [OF this]
  obtain w' where s: "set_persist ''last_modified'' (PTime (utcnow w)) (Some (path h)) ?w1 = (Inr (), w')"
    by blast
  show "fst (dispatch h ev w) = Inr ()" by (simp add: d s)
  from set_then_get [OF s]
  show "get_persist ''last_modified'' PNone (Some (path h)) (snd (dispatch h ev w)) = Inr (PTime (utcnow w))"
    by (simp add: d s)
qed

theorem dispatch_filter_witness:
  "dispatch (filtered [''created'']) (file_event ''modified'') start = (Inr (), start)
   \<and> deliver (filtered [''created'']) [file_event ''modified'', file_event ''deleted'', file_event ''modified'']
        (observed 5) = (Inr (), observed 5)
   \<and> get_persist ''last_modified'' PNone (Some ''/data'')
        (snd (dispatch (filtered [''created'']) (file_event ''created'') start)) = Inr (PTime 0)
   \<and> get_persist ''last_modified'' PNone (Some ''/data'')
        (snd (dispatch (monitor (hours 12) ''email'') (file_event ''modified'') start)) = Inr (PTime 0)"
proof -
  let ?h = "filtered [''created'']"
  have acc: "store_accepts ''/data'' start" by (simp add: store_accepts_def start_def)
  have now: "utcnow start = 0" by (simp add: utcnow_def start_def)
  have nm: "\<not> wanted ?h (file_event ''modified'')" "\<not> wanted ?h (file_event ''deleted'')"
    and wc: "wanted ?h (file_event ''created'')"
    and wm: "wanted (monitor (hours 12) ''email'') (file_event ''modified'')"
    by (simp_all add: wanted_def filtered_fields monitor_fields file_event_def)
  from dispatch_filter [of ?h "file_event ''modified''" start
      "[file_event ''modified'', file_event ''deleted'', file_event ''modified'']"] nm
  have a: "dispatch ?h (file_event ''modified'') start = (Inr (), start)" by blast
  have "\<forall>e \<in> set [file_event ''modified'', file_event ''deleted'', file_event ''modified'']. \<not> wanted ?h e"
    using nm by simp
  with dispatch_filter [of ?h "file_event ''modified''" "observed 5"
      "[file_event ''modified'', file_event ''deleted'', file_event ''modified'']"]
  have b: "deliver ?h [file_event ''modified'', file_event ''deleted'', file_event ''modified''] (observed 5)
        = (Inr (), observed 5)" by blast
  from dispatch_filter [of ?h "file_event ''created''" start "[]"] wc acc
  have c: "get_persist ''last_modified'' PNone (Some ''/data'') (snd (dispatch ?h (file_event ''created'') start))
        = Inr (PTime 0)"
    by (simp add: filtered_fields now)
  from dispatch_filter [of "monitor (hours 12) ''email''" "file_event ''modified''" start "[]"] wm acc
  have d: "get_persist ''last_modified'' PNone (Some ''/data'')
        (snd (dispatch (monitor (hours 12) ''email'') (file_event ''modified'') start)) = Inr (PTime 0)"
    by (simp add: monitor_fields now)
  from a b c d show ?thesis by blast
qed

text \<open>
  With the empty list as filter, a \<^verbatim>\<open>modified\<close> event changes nothing: \<^verbatim>\<open>last_modified\<close>
  stays absent.
\<close>

theorem empty_filter_counterexample:
  "event_types (filtered []) = Some []
   \<and> dispatch (filtered []) (file_event ''modified'') start = (Inr (), start)
   \<and> get_persist ''last_modified'' PNone (Some ''/data'') start = Inr PNone"
  by (simp add: filtered_fields dispatch_def wanted_def get_start)

section \<open>Alert types\<close>

lemma utcnow_print: "utcnow (print p w) = utcnow w"
  by (simp add: utcnow_def print_def)

text \<open>
  C5 (as amended). The constructor of the monitor keeps whatever alert type it is given.
  An alert type other than \<^verbatim>\<open>email\<close> and \<^verbatim>\<open>sms\<close> is met when an alert is sent: the
  notifier raises \<^verbatim>\<open>NotImplementedError\<close>, \<^verbatim>\<open>send_alert\<close> prints the traceback and goes on
  to store \<^verbatim>\<open>last_alert\<close>. With \<^verbatim>\<open>sms\<close> the notifier prints that sending is not
  implemented and raises nothing, and \<^verbatim>\<open>send_alert\<close> goes on to store \<^verbatim>\<open>last_alert\<close>.
  On the command line the choices of \<^verbatim>\<open>--alert-type\<close> make \<^verbatim>\<open>main\<close> end with a usage
  error and status 2 for any other alert type, before a monitor is built.
\<close>

theorem alert_type_handling:
  "alert_type (NotifyIfIdleEventHandler p idle retry types atype mail_to) = atype
   \<and> (alert_type h \<noteq> ''email'' \<and> alert_type h \<noteq> ''sms'' \<longrightarrow>
        notify h m w = (Inl (NotImplementedError (''Not supported '' @ alert_type h @ '' alert type'')), w)
      \<and> send_alert h w = set_persist ''last_alert'' (PTime (utcnow w)) (Some (path h))
           (tick (print (Traceback (NotImplementedError (''Not supported '' @ alert_type h @ '' alert type''))) w)))
   \<and> (alert_type h = ''sms'' \<longrightarrow>
        notify h m w = (Inr (), print Sms_Not_Implemented w)
      \<and> send_alert h w = set_persist ''last_alert'' (PTime (utcnow w)) (Some (path h))
           (tick (print Sms_Not_Implemented w)))
   \<and> (arg_paths a \<noteq> [] \<and> arg_alert_type a \<noteq> ''email'' \<and> arg_alert_type a \<noteq> ''sms'' \<longrightarrow>
        main a n w = (2, print (Usage_Error ''argument --alert-type: invalid choice'') w))"
proof (intro conjI impI)
  show "alert_type (NotifyIfIdleEventHandler p idle retry types atype mail_to) = atype"
    by (simp add: NotifyIfIdleEventHandler_def)
next
  assume a: "alert_type h \<noteq> ''email'' \<and> alert_type h \<noteq> ''sms''"
  then show n: "notify h m w = (Inl (NotImplementedError (''Not supported '' @ alert_type h @ '' alert type'')), w)"
    by (simp add: notify_def)
  from a show "send_alert h w = set_persist ''last_alert'' (PTime (utcnow w)) (Some (path h))
           (tick (print (Traceback (NotImplementedError (''Not supported '' @ alert_type h @ '' alert type''))) w))"
    by (simp add: send_alert_def notify_def Let_def utcnow_print)
next
  assume a: "alert_type h = ''sms''"
  then show "notify h m w = (Inr (), print Sms_Not_Implemented w)"
    by (simp add: notify_def)
  from a show "send_alert h w = set_persist ''last_alert'' (PTime (utcnow w)) (Some (path h))
           (tick (print Sms_Not_Implemented w))"
    by (simp add: send_alert_def notify_def Let_def utcnow_print)
next
  assume "arg_paths a \<noteq> [] \<and> arg_alert_type a \<noteq> ''email'' \<and> arg_alert_type a \<noteq> ''sms''"
  then show "main a n w = (2, print (Usage_Error ''argument --alert-type: invalid choice'') w)"
    by (simp add: main_def argparse_error_def)
qed

theorem alert_type_handling_witness:
  "notify (monitor (hours 12) ''fax'') ''m'' start
     = (Inl (NotImplementedError ''Not supported fax alert type''), start)
   \<and> send_alert (monitor (hours 12) ''fax'') start
     = set_persist ''last_alert'' (PTime 0) (Some ''/data'')
         (tick (print (Traceback (NotImplementedError ''Not supported fax alert type'')) start))
   \<and> notify (monitor (hours 12) ''sms'') ''m'' start = (Inr (), print Sms_Not_Implemented start)
   \<and> send_alert (monitor (hours 12) ''sms'') start
     = set_persist ''last_alert'' (PTime 0) (Some ''/data'') (tick (print Sms_Not_Implemented start))
   \<and> main (cli [''/data''] ''fax'') 3 start
     = (2, print (Usage_Error ''argument --alert-type: invalid choice'') start)"
proof -
  have now: "utcnow start = 0" by (simp add: utcnow_def start_def)
  have c: "arg_paths (cli [''/data''] ''fax'') \<noteq> []" "arg_alert_type (cli [''/data''] ''fax'') = ''fax''"
    by (simp_all add: cli_def)
  from alert_type_handling [of "''/data''" 0 None None "''fax''" To_None "monitor (hours 12) ''fax''" "''m''" start
      "cli [''/data''] ''fax''" 3] c
  have a: "notify (monitor (hours 12) ''fax'') ''m'' start
     = (Inl (NotImplementedError ''Not supported fax alert type''), start)"
    and b: "send_alert (monitor (hours 12) ''fax'') start
     = set_persist ''last_alert'' (PTime 0) (Some ''/data'')
         (tick (print (Traceback (NotImplementedError ''Not supported fax alert type'')) start))"
    and d: "main (cli [''/data''] ''fax'') 3 start
     = (2, print (Usage_Error ''argument --alert-type: invalid choice'') start)"
    by (simp_all add: monitor_fields now)
  from alert_type_handling [of "''/data''" 0 None None "''fax''" To_None "monitor (hours 12) ''sms''" "''m''" start
      "cli [''/data''] ''fax''" 3]
  have e: "notify (monitor (hours 12) ''sms'') ''m'' start = (Inr (), print Sms_Not_Implemented start)"
    and f: "send_alert (monitor (hours 12) ''sms'') start
     = set_persist ''last_alert'' (PTime 0) (Some ''/data'') (tick (print Sms_Not_Implemented start))"
    by (simp_all add: monitor_fields now)
  from a b d e f show ?thesis by blast
qed

text \<open>
  A monitor is built with the alert type \<^verbatim>\<open>fax\<close> and keeps it; the error comes when the
  alert is sent, as a traceback of \<^verbatim>\<open>NotImplementedError\<close>.
\<close>

theorem unknown_alert_type_counterexample:
  "alert_type (NotifyIfIdleEventHandler ''/data'' (hours 12) None None ''fax'' (To_List [''ops@example.org''])) = ''fax''
   \<and> notify (NotifyIfIdleEventHandler ''/data'' (hours 12) None None ''fax'' (To_List [''ops@example.org''])) ''m'' start
       = (Inl (NotImplementedError ''Not supported fax alert type''), start)
   \<and> out (snd (send_alert (NotifyIfIdleEventHandler ''/data'' (hours 12) None None ''fax''
                            (To_List [''ops@example.org''])) start))
       = [Traceback (NotImplementedError ''Not supported fax alert type'')]"
  by (simp add: NotifyIfIdleEventHandler_def notify_def send_alert_def Let_def set_persist_def dump_def
        put_workspace_def print_def tick_def start_def)

section \<open>The text of the alert\<close>

lemma str_timedelta_36: "str_timedelta (hours 36) = ''1 day, 12:00:00''"
  by (simp add: str_timedelta_def hours_def show_int_def zero_pad_def Let_def)

lemma str_timedelta_720: "str_timedelta (minutes 720) = ''12:00:00''"
  by (simp add: str_timedelta_def minutes_def show_int_def zero_pad_def Let_def)

text \<open>
  C6. The message mailed by \<^verbatim>\<open>send_alert\<close> is the template with the path and with
  \<^verbatim>\<open>str\<close> of the idle threshold, which \<^verbatim>\<open>idle_hours\<close> is bound to: for a threshold of 36
  hours the text between \<^verbatim>\<open>about\<close> and \<^verbatim>\<open>hours!\<close> is \<^verbatim>\<open>1 day, 12:00:00\<close>, and for the
  default of 720 minutes it is \<^verbatim>\<open>12:00:00\<close>; neither is the number of hours.
\<close>

theorem idle_hours_rendering:
  "str_timedelta (hours 36) = ''1 day, 12:00:00''
   \<and> map m_text (posted (snd (send_alert (monitor (hours 36) ''email'') start)))
       = [ALERT_MESSAGE ''/data'' ''1 day, 12:00:00'']
   \<and> str_timedelta (minutes 720) = ''12:00:00''"
proof -
  have "posted (snd (send_alert (monitor (hours 36) ''email'') start))
      = [\<lparr>m_domain = ''<MAILGUN_DOMAIN_NAME>'', m_key = ''<MAILGUN_API_KEY>'',
          m_from = MAILGUN_DEFAULT_FROM, m_to = ''ops@example.org'', m_subject = ALERT_SUBJECT,
          m_text = ALERT_MESSAGE ''/data'' ''1 day, 12:00:00'',
          m_html = Some (ALERT_MESSAGE ''/data'' ''1 day, 12:00:00'')\<rparr>]"
    by (simp add: send_alert_def monitor_fields str_timedelta_36 notify_def send_mail_def post_def
          print_def Let_def set_persist_def dump_def put_workspace_def tick_def start_def)
  then show ?thesis by (simp add: str_timedelta_36 str_timedelta_720)
qed

section \<open>Start-up with a path that does not exist\<close>

text \<open>An idle threshold of 1440000000000 minutes is a thousand million days: \<^verbatim>\<open>timedelta\<close>
  raises before anything is printed or watched, and the process ends with status 1. One
  minute less than that is accepted.\<close>

lemma main_threshold_overflow:
  "main (cli [''/data''] ''email'' \<lparr>arg_idle_time_threshold := 1440000000000\<rparr>) n start
     = (1, print (Traceback OverflowError) start)"
  "timedelta_minutes 1439999999999 = Inr (minutes 1439999999999)"
  by (simp_all add: main_def cli_def argparse_error_def start_def print_def timedelta_minutes_def)


text \<open>
  C9. With \<^verbatim>\<open>/data\<close> existing and \<^verbatim>\<open>/nonexistent\<close> not, \<^verbatim>\<open>main\<close> prints the invalid
  path and returns: the observer is never started and the loop never sleeps, but the
  status of the process is 0, while a missing \<^verbatim>\<open>--email-to\<close> ends it with status 2.
\<close>

theorem missing_path_exit_status:
  "fst (main (cli [''/data'', ''/nonexistent''] ''email'') n start) = 0
   \<and> out (snd (main (cli [''/data'', ''/nonexistent''] ''email'') n start))
       = [Watching [''/data'', ''/nonexistent''], Invalid_Path ''/nonexistent'']
   \<and> \<not> started (snd (main (cli [''/data'', ''/nonexistent''] ''email'') n start))
   \<and> sleeps (snd (main (cli [''/data'', ''/nonexistent''] ''email'') n start)) = 0
   \<and> fst (main (cli [''/data''] ''email'' \<lparr>arg_email_to := None\<rparr>) n start) = 2"
  by (simp add: main_def cli_def argparse_error_def start_def print_def set_globals_def
        NotifyIfIdleEventHandler_def timedelta_minutes_def retry_interval_def minutes_def Let_def)

end
